theory Spec2Isabelle
  imports Main "HOL-Library.Sublist"
begin

section \<open>Errors of the store and their classification\<close>

text \<open>
  The client in \<^verbatim>\<open>pkg/client/client.go\<close> never builds an API error of its own: it
  receives them from the embedded controller-runtime client and classifies them with
  \<^verbatim>\<open>errors.IsNotFound\<close>, \<^verbatim>\<open>errors.IsAlreadyExists\<close> and (inside
  \<^verbatim>\<open>retry.RetryOnConflict\<close>) \<^verbatim>\<open>errors.IsConflict\<close>. An error value is either an API
  status error (reason, HTTP code, message), a plain error, or the result of
  \<^verbatim>\<open>fmt.Errorf("...: %w", err)\<close>, which keeps the wrapped error reachable.
\<close>

datatype StatusReason =
    StatusReasonUnknown
  | StatusReasonNotFound
  | StatusReasonAlreadyExists
  | StatusReasonConflict
  | StatusReasonForbidden
  | StatusReasonUnauthorized
  | StatusReasonInvalid
  | StatusReasonTimeout
  | StatusReasonInternalError
  | StatusReasonServiceUnavailable
  | StatusReasonOther string

datatype error =
    StatusError StatusReason nat string
  | ErrorString string
  | WrapError string error

text \<open>\<^verbatim>\<open>err.Error()\<close>: in the three format strings of the file the verb \<^verbatim>\<open>%w\<close> comes
  last, so the text of a wrapped error is the formatted prefix followed by the text of
  the error it wraps.\<close>

fun Error :: "error \<Rightarrow> string" where
  "Error (StatusError r c m) = m"
| "Error (ErrorString m) = m"
| "Error (WrapError p e) = p @ Error e"

text \<open>\<^verbatim>\<open>reasonAndCodeForError\<close> of apimachinery looks for the first API status in the
  chain of wrapped errors (\<^verbatim>\<open>errors.As\<close>); without one the reason is unknown.\<close>

fun reasonAndCodeForError :: "error \<Rightarrow> StatusReason \<times> nat" where
  "reasonAndCodeForError (StatusError r c m) = (r, c)"
| "reasonAndCodeForError (ErrorString m) = (StatusReasonUnknown, 0)"
| "reasonAndCodeForError (WrapError p e) = reasonAndCodeForError e"

definition ReasonForError :: "error \<Rightarrow> StatusReason" where
  "ReasonForError err = fst (reasonAndCodeForError err)"

text \<open>The table \<^verbatim>\<open>knownReasons\<close>: every reason the API declares but the unknown one.\<close>

fun knownReasons :: "StatusReason \<Rightarrow> bool" where
  "knownReasons StatusReasonUnknown = False"
| "knownReasons (StatusReasonOther s) = False"
| "knownReasons r = True"

definition IsNotFound :: "error \<Rightarrow> bool" where
  "IsNotFound err =
     (case reasonAndCodeForError err of
        (reason, code) \<Rightarrow>
          if reason = StatusReasonNotFound then True
          else if \<not> knownReasons reason \<and> code = 404 then True
          else False)"

definition IsConflict :: "error \<Rightarrow> bool" where
  "IsConflict err =
     (case reasonAndCodeForError err of
        (reason, code) \<Rightarrow>
          if reason = StatusReasonConflict then True
          else if \<not> knownReasons reason \<and> code = 409 then True
          else False)"

definition IsAlreadyExists :: "error \<Rightarrow> bool" where
  "IsAlreadyExists err = (ReasonForError err = StatusReasonAlreadyExists)"

section \<open>Objects and keys\<close>

datatype ObjectKind =
    Role
  | RoleBinding
  | ClusterRole
  | ClusterRoleBinding
  | CSIDriver
  | ServiceAccount
  | Service
  | ConfigMap
  | Deployment
  | DaemonSet
  | StatefulSet
  | ValidatingWebhookConfiguration
  | ZeroTrustWorkloadIdentityManager
  | SpireAgent
  | SpiffeCSIDriver
  | SpireServer
  | SpireOIDCDiscoveryProvider
  | OtherKind string

text \<open>A \<^verbatim>\<open>client.Object\<close>: its dynamic Go type, the metadata the client reads or
  writes, and the remaining fields, which the client never interprets.\<close>

record Object =
  TypeOf :: ObjectKind
  Name :: string
  Namespace :: string
  ResourceVersion :: string
  Labels :: "(string \<times> string) list"
  Spec :: string
  Status :: string

text \<open>\<^verbatim>\<open>reflect.New(reflect.TypeOf(obj).Elem()).Interface().(client.Object)\<close>: a zero
  value of the same dynamic type.\<close>

definition New :: "ObjectKind \<Rightarrow> Object" where
  "New k = \<lparr>TypeOf = k, Name = [], Namespace = [], ResourceVersion = [],
            Labels = [], Spec = [], Status = []\<rparr>"

datatype NamespacedName = NamespacedName (keyNamespace: string) (keyName: string)

text \<open>\<^verbatim>\<open>NamespacedName.String()\<close> and the verb \<^verbatim>\<open>%q\<close>, which prints it between double
  quotes with \<^verbatim>\<open>"\<close> and \<^verbatim>\<open>\\<close> escaped (names of API objects hold neither, nor any
  character that Go would print as an escape sequence).\<close>

definition String :: "NamespacedName \<Rightarrow> string" where
  "String n = keyNamespace n @ ''/'' @ keyName n"

definition Quote :: "string \<Rightarrow> string" where
  "Quote s =
     [CHR 0x22] @
     concat (map (\<lambda>ch. if ch = CHR 0x22 \<or> ch = CHR 0x5C then [CHR 0x5C, ch] else [ch]) s) @
     [CHR 0x22]"

section \<open>The embedded client, the direct reader and the calls made to them\<close>

text \<open>
  \<^verbatim>\<open>customCtrlClientImpl\<close> has two collaborators: the embedded \<^verbatim>\<open>client.Client\<close>, which
  \<^verbatim>\<open>BuildCustomClient\<close> creates with the custom cache as its reader (its \<^verbatim>\<open>Get\<close> is
  served from the watch-backed cache, its writes go to the API server), and
  \<^verbatim>\<open>apiReader\<close>, the manager's reader that bypasses the cache. Both are Go interfaces,
  so the model takes them as functions over a state \<open>'w\<close> of the world they talk to.
  A method receives the object by pointer: it returns the error and the object as the
  call left it.
\<close>

record 'w customCtrlClientImpl =
  Client_Get :: "NamespacedName \<Rightarrow> Object \<Rightarrow> 'w \<Rightarrow> (error option \<times> Object) \<times> 'w"
  Client_Create :: "Object \<Rightarrow> 'w \<Rightarrow> (error option \<times> Object) \<times> 'w"
  Client_Update :: "Object \<Rightarrow> 'w \<Rightarrow> (error option \<times> Object) \<times> 'w"
  Client_Status_Update :: "Object \<Rightarrow> 'w \<Rightarrow> (error option \<times> Object) \<times> 'w"
  apiReader_Get :: "NamespacedName \<Rightarrow> Object \<Rightarrow> 'w \<Rightarrow> (error option \<times> Object) \<times> 'w"

text \<open>Every call to a collaborator is recorded with its argument and its outcome, the
  way the generated fakes of the repository record calls.\<close>

datatype Call =
    CallClientGet NamespacedName Object "error option" Object
  | CallAPIReaderGet NamespacedName Object "error option" Object
  | CallClientCreate Object "error option" Object
  | CallClientUpdate Object "error option" Object
  | CallClientStatusUpdate Object "error option" Object

type_synonym 'w st = "Call list \<times> 'w"

definition c_Client_Get ::
  "'w customCtrlClientImpl \<Rightarrow> NamespacedName \<Rightarrow> Object \<Rightarrow> 'w st \<Rightarrow> (error option \<times> Object) \<times> 'w st" where
  "c_Client_Get c key obj s =
     (case Client_Get c key obj (snd s) of
        ((err, obj'), w') \<Rightarrow> ((err, obj'), (fst s @ [CallClientGet key obj err obj'], w')))"

definition c_apiReader_Get ::
  "'w customCtrlClientImpl \<Rightarrow> NamespacedName \<Rightarrow> Object \<Rightarrow> 'w st \<Rightarrow> (error option \<times> Object) \<times> 'w st" where
  "c_apiReader_Get c key obj s =
     (case apiReader_Get c key obj (snd s) of
        ((err, obj'), w') \<Rightarrow> ((err, obj'), (fst s @ [CallAPIReaderGet key obj err obj'], w')))"

definition c_Client_Create ::
  "'w customCtrlClientImpl \<Rightarrow> Object \<Rightarrow> 'w st \<Rightarrow> (error option \<times> Object) \<times> 'w st" where
  "c_Client_Create c obj s =
     (case Client_Create c obj (snd s) of
        ((err, obj'), w') \<Rightarrow> ((err, obj'), (fst s @ [CallClientCreate obj err obj'], w')))"

definition c_Client_Update ::
  "'w customCtrlClientImpl \<Rightarrow> Object \<Rightarrow> 'w st \<Rightarrow> (error option \<times> Object) \<times> 'w st" where
  "c_Client_Update c obj s =
     (case Client_Update c obj (snd s) of
        ((err, obj'), w') \<Rightarrow> ((err, obj'), (fst s @ [CallClientUpdate obj err obj'], w')))"

definition c_Client_Status_Update ::
  "'w customCtrlClientImpl \<Rightarrow> Object \<Rightarrow> 'w st \<Rightarrow> (error option \<times> Object) \<times> 'w st" where
  "c_Client_Status_Update c obj s =
     (case Client_Status_Update c obj (snd s) of
        ((err, obj'), w') \<Rightarrow> ((err, obj'), (fst s @ [CallClientStatusUpdate obj err obj'], w')))"

section \<open>The operations of the client\<close>

text \<open>\<^verbatim>\<open>Get\<close>: the cache-backed read, and the direct reader when that read reports
  "not found".\<close>

definition Get ::
  "'w customCtrlClientImpl \<Rightarrow> NamespacedName \<Rightarrow> Object \<Rightarrow> 'w st \<Rightarrow> (error option \<times> Object) \<times> 'w st" where
  "Get c key obj s =
     (case c_Client_Get c key obj s of
        ((Some err, obj'), s') \<Rightarrow>
          if IsNotFound err then c_apiReader_Get c key obj' s'
          else ((Some err, obj'), s')
      | ((None, obj'), s') \<Rightarrow> ((None, obj'), s'))"

definition Create ::
  "'w customCtrlClientImpl \<Rightarrow> Object \<Rightarrow> 'w st \<Rightarrow> (error option \<times> Object) \<times> 'w st" where
  "Create c obj s = c_Client_Create c obj s"

definition Update ::
  "'w customCtrlClientImpl \<Rightarrow> Object \<Rightarrow> 'w st \<Rightarrow> (error option \<times> Object) \<times> 'w st" where
  "Update c obj s = c_Client_Update c obj s"

definition StatusUpdate ::
  "'w customCtrlClientImpl \<Rightarrow> Object \<Rightarrow> 'w st \<Rightarrow> (error option \<times> Object) \<times> 'w st" where
  "StatusUpdate c obj s = c_Client_Status_Update c obj s"

text \<open>\<^verbatim>\<open>Exists\<close> returns the boolean and the error; the object is the third component.\<close>

definition Exists ::
  "'w customCtrlClientImpl \<Rightarrow> NamespacedName \<Rightarrow> Object \<Rightarrow> 'w st \<Rightarrow> (bool \<times> error option \<times> Object) \<times> 'w st" where
  "Exists c key obj s =
     (case c_Client_Get c key obj s of
        ((Some err, obj'), s') \<Rightarrow>
          if IsNotFound err then ((False, None, obj'), s')
          else ((False, Some err, obj'), s')
      | ((None, obj'), s') \<Rightarrow> ((True, None, obj'), s'))"

text \<open>\<^verbatim>\<open>CreateOrUpdateObject\<close> tries to create the object, updates if already exists.\<close>

definition CreateOrUpdateObject ::
  "'w customCtrlClientImpl \<Rightarrow> Object \<Rightarrow> 'w st \<Rightarrow> (error option \<times> Object) \<times> 'w st" where
  "CreateOrUpdateObject c obj s =
     (case Create c obj s of
        ((Some err, obj'), s') \<Rightarrow>
          if IsAlreadyExists err then Update c obj' s'
          else ((Some err, obj'), s')
      | ((None, obj'), s') \<Rightarrow> ((None, obj'), s'))"

section \<open>Retry on conflict\<close>

text \<open>Modelled from the spec: the loop of \<^verbatim>\<open>retry.RetryOnConflict\<close> and the policy
  \<^verbatim>\<open>retry.DefaultRetry\<close>, which belong to client-go and are not among the sources. The
  Retry/Conflict Protocol of the spec is a bounded loop: an attempt that ends in a
  version conflict is retried, an attempt that fails for any other reason ends the loop
  with its error, an attempt that succeeds ends it successfully, and when the budget is
  used up while conflicts are still seen the operation fails with the conflict.
  \<^verbatim>\<open>RetryOnConflict(backoff, fn)\<close> is that loop over the closure \<open>fn\<close>, with
  \<^verbatim>\<open>errors.IsConflict\<close> as the test on the error that \<open>fn\<close> returns (client-go's
  \<^verbatim>\<open>OnError(backoff, errors.IsConflict, fn)\<close>): it runs \<open>fn\<close> at most \<^verbatim>\<open>backoff.Steps\<close>
  times and remembers a retriable error as \<^verbatim>\<open>lastErr\<close>, which it returns when the steps
  are used up. The default policy has five steps. Waiting between the attempts
  (duration, factor, jitter) and the cancellation of a context are not modelled, so of
  the backoff only the number of steps remains. \<open>fn\<close> is a closure over variables it
  mutates; they are the state \<open>'s\<close>.\<close>

record Backoff =
  Steps :: nat

definition DefaultRetry :: Backoff where
  "DefaultRetry = \<lparr>Steps = 5\<rparr>"

fun OnError ::
  "nat \<Rightarrow> (error \<Rightarrow> bool) \<Rightarrow> ('s \<Rightarrow> error option \<times> 's) \<Rightarrow> error option \<Rightarrow> 's \<Rightarrow> error option \<times> 's" where
  "OnError 0 retriable fn lastErr s = (lastErr, s)"
| "OnError (Suc n) retriable fn lastErr s =
     (case fn s of
        (None, s') \<Rightarrow> (None, s')
      | (Some err, s') \<Rightarrow>
          if retriable err then OnError n retriable fn (Some err) s'
          else (Some err, s'))"

definition RetryOnConflict ::
  "Backoff \<Rightarrow> ('s \<Rightarrow> error option \<times> 's) \<Rightarrow> 's \<Rightarrow> error option \<times> 's" where
  "RetryOnConflict backoff fn s = OnError (Steps backoff) IsConflict fn None s"

text \<open>The two format strings of the retry closures, applied to the key and the error.\<close>

definition Errorf_fetch :: "NamespacedName \<Rightarrow> error \<Rightarrow> error" where
  "Errorf_fetch key err =
     WrapError (''failed to fetch latest '' @ Quote (String key) @ '' for update: '') err"

definition Errorf_update :: "NamespacedName \<Rightarrow> error \<Rightarrow> error" where
  "Errorf_update key err =
     WrapError (''failed to update '' @ Quote (String key) @ '' resource: '') err"

text \<open>The closure handed to \<^verbatim>\<open>RetryOnConflict\<close> by \<^verbatim>\<open>UpdateWithRetry\<close>. It captures
  \<open>key\<close> and the caller's object \<open>obj\<close>, which it mutates through the pointer; the
  state of the closure is that object and the state of the world.\<close>

definition UpdateWithRetry_fn ::
  "'w customCtrlClientImpl \<Rightarrow> NamespacedName \<Rightarrow> Object \<times> 'w st \<Rightarrow> error option \<times> (Object \<times> 'w st)" where
  "UpdateWithRetry_fn c key os =
     (case os of (obj, s) \<Rightarrow>
        (let current = New (TypeOf obj) in
         (case c_Client_Get c key current s of
            ((Some err, current'), s1) \<Rightarrow> (Some (Errorf_fetch key err), (obj, s1))
          | ((None, current'), s1) \<Rightarrow>
              (let obj1 = obj\<lparr>ResourceVersion := ResourceVersion current'\<rparr> in
               (case c_Client_Update c obj1 s1 of
                  ((Some err, obj2), s2) \<Rightarrow> (Some (Errorf_update key err), (obj2, s2))
                | ((None, obj2), s2) \<Rightarrow> (None, (obj2, s2)))))))"

definition UpdateWithRetry ::
  "'w customCtrlClientImpl \<Rightarrow> Object \<Rightarrow> 'w st \<Rightarrow> error option \<times> (Object \<times> 'w st)" where
  "UpdateWithRetry c obj s =
     (let key = NamespacedName (Namespace obj) (Name obj) in
      RetryOnConflict DefaultRetry (UpdateWithRetry_fn c key) (obj, s))"

definition StatusUpdateWithRetry_fn ::
  "'w customCtrlClientImpl \<Rightarrow> NamespacedName \<Rightarrow> Object \<times> 'w st \<Rightarrow> error option \<times> (Object \<times> 'w st)" where
  "StatusUpdateWithRetry_fn c key os =
     (case os of (obj, s) \<Rightarrow>
        (let current = New (TypeOf obj) in
         (case c_Client_Get c key current s of
            ((Some err, current'), s1) \<Rightarrow> (Some (Errorf_fetch key err), (obj, s1))
          | ((None, current'), s1) \<Rightarrow>
              (let obj1 = obj\<lparr>ResourceVersion := ResourceVersion current'\<rparr> in
               (case c_Client_Status_Update c obj1 s1 of
                  ((Some err, obj2), s2) \<Rightarrow> (Some (Errorf_update key err), (obj2, s2))
                | ((None, obj2), s2) \<Rightarrow> (None, (obj2, s2)))))))"

definition StatusUpdateWithRetry ::
  "'w customCtrlClientImpl \<Rightarrow> Object \<Rightarrow> 'w st \<Rightarrow> error option \<times> (Object \<times> 'w st)" where
  "StatusUpdateWithRetry c obj s =
     (let key = NamespacedName (Namespace obj) (Name obj) in
      RetryOnConflict DefaultRetry (StatusUpdateWithRetry_fn c key) (obj, s))"

text \<open>The two protocols differ in the write they submit only; \<open>sub\<close> selects the
  status subresource, so that a statement about both is made once.\<close>

definition c_write ::
  "bool \<Rightarrow> 'w customCtrlClientImpl \<Rightarrow> Object \<Rightarrow> 'w st \<Rightarrow> (error option \<times> Object) \<times> 'w st" where
  "c_write sub c = (if sub then c_Client_Status_Update c else c_Client_Update c)"

definition retryClosure ::
  "bool \<Rightarrow> 'w customCtrlClientImpl \<Rightarrow> NamespacedName \<Rightarrow> Object \<times> 'w st \<Rightarrow> error option \<times> (Object \<times> 'w st)" where
  "retryClosure sub c key = (if sub then StatusUpdateWithRetry_fn c key else UpdateWithRetry_fn c key)"

definition withRetry ::
  "bool \<Rightarrow> 'w customCtrlClientImpl \<Rightarrow> Object \<Rightarrow> 'w st \<Rightarrow> error option \<times> (Object \<times> 'w st)" where
  "withRetry sub c = (if sub then StatusUpdateWithRetry c else UpdateWithRetry c)"

section \<open>The resource catalogue and the construction of the client\<close>

definition cacheResources :: "ObjectKind list" where
  "cacheResources =
     [Role, RoleBinding, ClusterRole, ClusterRoleBinding, CSIDriver, ServiceAccount,
      Service, ConfigMap, Deployment, DaemonSet, StatefulSet,
      ValidatingWebhookConfiguration]"

definition cacheResourceWithoutReqSelectors :: "ObjectKind list" where
  "cacheResourceWithoutReqSelectors =
     [ZeroTrustWorkloadIdentityManager, SpireAgent, SpiffeCSIDriver, SpireServer,
      SpireOIDCDiscoveryProvider]"

definition informerResources :: "ObjectKind list" where
  "informerResources =
     [ServiceAccount, Service, Role, RoleBinding, ClusterRole, ClusterRoleBinding,
      CSIDriver, ConfigMap, Deployment, DaemonSet, StatefulSet,
      ValidatingWebhookConfiguration, ZeroTrustWorkloadIdentityManager, SpireAgent,
      SpiffeCSIDriver, SpireServer, SpireOIDCDiscoveryProvider]"

text \<open>Modelled from the spec: the constants \<^verbatim>\<open>utils.AppManagedByLabelKey\<close> and
  \<^verbatim>\<open>utils.AppManagedByLabelValue\<close> of the package \<^verbatim>\<open>pkg/controller/utils\<close>, which
  is not among the sources. The spec names the label \<^verbatim>\<open>app-managed-by\<close> and, in its
  scenario, the value \<^verbatim>\<open>zero-trust-workload-identity-manager\<close>.\<close>

definition AppManagedByLabelKey :: string where
  "AppManagedByLabelKey = ''app-managed-by''"

definition AppManagedByLabelValue :: string where
  "AppManagedByLabelValue = ''zero-trust-workload-identity-manager''"

datatype Operator = DoesNotExist | Equals | DoubleEquals | In | NotEquals | NotIn | Exist
  | GreaterThan | LessThan

datatype Requirement = Requirement (reqKey: string) (reqOperator: Operator) (reqValues: "string list")

type_synonym Selector = "Requirement list"

text \<open>\<^verbatim>\<open>labels.NewRequirement\<close> checks the number of values its operator takes; its
  syntactic checks of the key and of the values are kept as the non-emptiness of the
  key.\<close>

definition NewRequirement :: "string \<Rightarrow> Operator \<Rightarrow> string list \<Rightarrow> error + Requirement" where
  "NewRequirement key opr vals =
     (if key = [] then Inl (ErrorString ''name part must be non-empty'')
      else if (opr = In \<or> opr = NotIn) \<and> vals = []
        then Inl (ErrorString ''for 'in', 'notin' operators, values set can't be empty'')
      else if (opr = Equals \<or> opr = DoubleEquals \<or> opr = NotEquals) \<and> length vals \<noteq> 1
        then Inl (ErrorString ''exact-match compatibility requires one single value'')
      else if (opr = Exist \<or> opr = DoesNotExist) \<and> vals \<noteq> []
        then Inl (ErrorString ''values set must be empty for exists and does not exist'')
      else if (opr = GreaterThan \<or> opr = LessThan) \<and> length vals \<noteq> 1
        then Inl (ErrorString ''for 'Gt', 'Lt' operators, exactly one value is required'')
      else Inr (Requirement key opr vals))"

text \<open>\<^verbatim>\<open>labels.NewSelector().Add(r)\<close>.\<close>

definition NewSelector :: Selector where
  "NewSelector = []"

definition Add :: "Selector \<Rightarrow> Requirement \<Rightarrow> Selector" where
  "Add sel r = sel @ [r]"

text \<open>\<^verbatim>\<open>cache.ByObject\<close>: a \<^verbatim>\<open>nil\<close> label selector is no filter. \<^verbatim>\<open>cache.Options\<close>: of its
  fields the map \<^verbatim>\<open>ByObject\<close> and \<^verbatim>\<open>ReaderFailOnMissingInformer\<close>; the HTTP client, the
  scheme and the mapper are handed through from the manager. The keys of the Go map
  are the pointers of the catalogue, one entry for each, so the map is a list of
  entries.\<close>

record ByObject =
  Label :: "Selector option"

record CacheOptions =
  ByObjects :: "(ObjectKind \<times> ByObject) list"
  ReaderFailOnMissingInformer :: bool

text \<open>What \<^verbatim>\<open>BuildCustomClient\<close> asks of the manager and of controller-runtime:
  \<^verbatim>\<open>cache.New\<close>, \<^verbatim>\<open>customCache.GetInformer\<close> for a kind, \<^verbatim>\<open>mgr.Add\<close> and \<^verbatim>\<open>client.New\<close>,
  each of which may fail.\<close>

record Manager =
  cache_New :: "CacheOptions \<Rightarrow> error option"
  GetInformer :: "ObjectKind \<Rightarrow> error option"
  mgr_Add :: "error option"
  client_New :: "error option"

text \<open>The client that \<^verbatim>\<open>BuildCustomClient\<close> returns, by what was set up for it: the
  options of its cache, the kinds whose informer was established, and whether the
  cache was added to the manager.\<close>

record BuiltClient =
  Options :: CacheOptions
  Informers :: "ObjectKind list"
  Registered :: bool

definition customCacheObjects :: "Selector \<Rightarrow> (ObjectKind \<times> ByObject) list" where
  "customCacheObjects managedResourceLabelReqSelector =
     map (\<lambda>resource. (resource, \<lparr>Label = Some managedResourceLabelReqSelector\<rparr>)) cacheResources @
     map (\<lambda>resource. (resource, \<lparr>Label = None\<rparr>)) cacheResourceWithoutReqSelectors"

text \<open>The loop over \<^verbatim>\<open>informerResources\<close>: the first failure ends it.\<close>

fun getInformers :: "Manager \<Rightarrow> ObjectKind list \<Rightarrow> ObjectKind list \<Rightarrow> error + ObjectKind list" where
  "getInformers mgr [] started = Inr started"
| "getInformers mgr (resource # rest) started =
     (case GetInformer mgr resource of
        Some err \<Rightarrow> Inl err
      | None \<Rightarrow> getInformers mgr rest (started @ [resource]))"

definition BuildCustomClient :: "Manager \<Rightarrow> error + BuiltClient" where
  "BuildCustomClient mgr =
     (case NewRequirement AppManagedByLabelKey Equals [AppManagedByLabelValue] of
        Inl err \<Rightarrow> Inl err
      | Inr spireServerManagedResourceAppManagedReq \<Rightarrow>
          let managedResourceLabelReqSelector = Add NewSelector spireServerManagedResourceAppManagedReq;
              customCacheOpts = \<lparr>ByObjects = customCacheObjects managedResourceLabelReqSelector,
                                 ReaderFailOnMissingInformer = True\<rparr>
          in (case cache_New mgr customCacheOpts of
               Some err \<Rightarrow> Inl err
             | None \<Rightarrow>
                 (case getInformers mgr informerResources [] of
                    Inl err \<Rightarrow> Inl err
                  | Inr started \<Rightarrow>
                      (case mgr_Add mgr of
                         Some err \<Rightarrow> Inl err
                       | None \<Rightarrow>
                           (case client_New mgr of
                              Some err \<Rightarrow> Inl err
                            | None \<Rightarrow> Inr \<lparr>Options = customCacheOpts, Informers = started,
                                            Registered = True\<rparr>)))))"

definition NewCustomClient :: "Manager \<Rightarrow> error + BuiltClient" where
  "NewCustomClient m =
     (case BuildCustomClient m of
        Inl err \<Rightarrow> Inl (WrapError ''failed to build custom client: '' err)
      | Inr c \<Rightarrow> Inr c)"

section \<open>Reading the recorded calls\<close>

text \<open>The calls an operation made: those recorded after the ones that were there when
  it started.\<close>

definition newCalls :: "'w st \<Rightarrow> 'w st \<Rightarrow> Call list" where
  "newCalls s s' = drop (length (fst s)) (fst s')"

fun isCacheRead :: "Call \<Rightarrow> bool" where
  "isCacheRead (CallClientGet key target err out) = True"
| "isCacheRead _ = False"

fun isDirectRead :: "Call \<Rightarrow> bool" where
  "isDirectRead (CallAPIReaderGet key target err out) = True"
| "isDirectRead _ = False"

fun isWrite :: "Call \<Rightarrow> bool" where
  "isWrite (CallClientCreate arg err out) = True"
| "isWrite (CallClientUpdate arg err out) = True"
| "isWrite (CallClientStatusUpdate arg err out) = True"
| "isWrite _ = False"

text \<open>A read whose target is the object \<open>fresh\<close>; calls that are no reads pass.\<close>

fun readsInto :: "Object \<Rightarrow> Call \<Rightarrow> bool" where
  "readsInto fresh (CallClientGet key target err out) = (target = fresh)"
| "readsInto fresh (CallAPIReaderGet key target err out) = (target = fresh)"
| "readsInto fresh _ = True"

text \<open>Two objects that differ at most in their resource version.\<close>

definition sameButVersion :: "Object \<Rightarrow> Object \<Rightarrow> bool" where
  "sameButVersion a b = (a\<lparr>ResourceVersion := []\<rparr> = b\<lparr>ResourceVersion := []\<rparr>)"

text \<open>A write whose argument differs from \<open>obj\<close> at most in the resource version;
  calls that are no writes pass.\<close>

fun isWriteOf :: "bool \<Rightarrow> Call \<Rightarrow> bool" where
  "isWriteOf sub (CallClientUpdate arg err out) = (\<not> sub)"
| "isWriteOf sub (CallClientStatusUpdate arg err out) = sub"
| "isWriteOf sub _ = False"

fun writesRestamped :: "Object \<Rightarrow> Call \<Rightarrow> bool" where
  "writesRestamped obj (CallClientCreate arg err out) = sameButVersion obj arg"
| "writesRestamped obj (CallClientUpdate arg err out) = sameButVersion obj arg"
| "writesRestamped obj (CallClientStatusUpdate arg err out) = sameButVersion obj arg"
| "writesRestamped obj _ = True"

text \<open>
  \<open>replayAttempts sub key obj calls\<close> reads a list of calls as a sequence of attempts
  of the retry closure on the caller's object \<open>obj\<close> (\<open>sub\<close> for the status
  subresource): an attempt is a cache-backed read of \<open>key\<close> into a fresh object of the
  type of \<open>obj\<close>, followed, when the read succeeded with \<open>current\<close>, by one write whose
  argument is the caller's object with the resource version of \<open>current\<close> and nothing
  else changed. The caller's object after the write is what the write left. The result
  is the caller's object after the last attempt, or \<open>None\<close> when the calls are no such
  sequence.
\<close>

fun replayAttempts :: "bool \<Rightarrow> NamespacedName \<Rightarrow> Object \<Rightarrow> Call list \<Rightarrow> Object option" where
  "replayAttempts sub key obj [] = Some obj"
| "replayAttempts sub key obj (CallClientGet k target (Some e) current # rest) =
     (if k = key \<and> target = New (TypeOf obj) then replayAttempts sub key obj rest else None)"
| "replayAttempts sub key obj (CallClientGet k target None current # CallClientUpdate arg err out # rest) =
     (if k = key \<and> target = New (TypeOf obj) \<and> \<not> sub \<and>
         arg = obj\<lparr>ResourceVersion := ResourceVersion current\<rparr>
      then replayAttempts sub key out rest else None)"
| "replayAttempts sub key obj (CallClientGet k target None current # CallClientStatusUpdate arg err out # rest) =
     (if k = key \<and> target = New (TypeOf obj) \<and> sub \<and>
         arg = obj\<lparr>ResourceVersion := ResourceVersion current\<rparr>
      then replayAttempts sub key out rest else None)"
| "replayAttempts sub key obj calls = None"

section \<open>A store and a cache to run the client against\<close>

text \<open>
  A small world for concrete runs: the authoritative store and the watch-fed cache are
  two indexes from kind and key to object, and the cache may lag behind the store or
  lack objects the store has (an object of a filtered kind without the label never
  enters the cache). The store rejects a write whose resource version is not the
  stored one, and gives every accepted write a new version.
\<close>

type_synonym Index = "((ObjectKind \<times> NamespacedName) \<times> Object) list"

record World =
  Store :: Index
  Cache :: Index

definition keyOf :: "Object \<Rightarrow> NamespacedName" where
  "keyOf obj = NamespacedName (Namespace obj) (Name obj)"

definition NewNotFound :: "NamespacedName \<Rightarrow> error" where
  "NewNotFound key = StatusError StatusReasonNotFound 404 (Quote (keyName key) @ '' not found'')"

definition NewAlreadyExists :: "NamespacedName \<Rightarrow> error" where
  "NewAlreadyExists key = StatusError StatusReasonAlreadyExists 409 (Quote (keyName key) @ '' already exists'')"

definition NewConflict :: "NamespacedName \<Rightarrow> error" where
  "NewConflict key =
     StatusError StatusReasonConflict 409
       (''Operation cannot be fulfilled on '' @ Quote (keyName key) @ '': the object has been modified'')"

definition nextVersion :: "string \<Rightarrow> string" where
  "nextVersion rv = rv @ ''+''"

definition readIndex :: "Index \<Rightarrow> NamespacedName \<Rightarrow> Object \<Rightarrow> error option \<times> Object" where
  "readIndex idx key obj =
     (case map_of idx (TypeOf obj, key) of
        None \<Rightarrow> (Some (NewNotFound key), obj)
      | Some found \<Rightarrow> (None, found))"

definition storeCreate :: "Object \<Rightarrow> World \<Rightarrow> (error option \<times> Object) \<times> World" where
  "storeCreate obj w =
     (case map_of (Store w) (TypeOf obj, keyOf obj) of
        Some found \<Rightarrow> ((Some (NewAlreadyExists (keyOf obj)), obj), w)
      | None \<Rightarrow>
          let stored = obj\<lparr>ResourceVersion := ''1''\<rparr>
          in ((None, stored), w\<lparr>Store := ((TypeOf obj, keyOf obj), stored) # Store w\<rparr>))"

definition storeUpdate :: "Object \<Rightarrow> World \<Rightarrow> (error option \<times> Object) \<times> World" where
  "storeUpdate obj w =
     (case map_of (Store w) (TypeOf obj, keyOf obj) of
        None \<Rightarrow> ((Some (NewNotFound (keyOf obj)), obj), w)
      | Some found \<Rightarrow>
          if ResourceVersion obj \<noteq> ResourceVersion found
          then ((Some (NewConflict (keyOf obj)), obj), w)
          else let stored = obj\<lparr>ResourceVersion := nextVersion (ResourceVersion found)\<rparr>
               in ((None, stored), w\<lparr>Store := ((TypeOf obj, keyOf obj), stored) # Store w\<rparr>))"

definition storeStatusUpdate :: "Object \<Rightarrow> World \<Rightarrow> (error option \<times> Object) \<times> World" where
  "storeStatusUpdate obj w =
     (case map_of (Store w) (TypeOf obj, keyOf obj) of
        None \<Rightarrow> ((Some (NewNotFound (keyOf obj)), obj), w)
      | Some found \<Rightarrow>
          if ResourceVersion obj \<noteq> ResourceVersion found
          then ((Some (NewConflict (keyOf obj)), obj), w)
          else let stored = found\<lparr>Status := Status obj,
                                  ResourceVersion := nextVersion (ResourceVersion found)\<rparr>
               in ((None, stored), w\<lparr>Store := ((TypeOf obj, keyOf obj), stored) # Store w\<rparr>))"

definition worldClient :: "World customCtrlClientImpl" where
  "worldClient =
     \<lparr>Client_Get = (\<lambda>key obj w. (readIndex (Cache w) key obj, w)),
      Client_Create = storeCreate,
      Client_Update = storeUpdate,
      Client_Status_Update = storeStatusUpdate,
      apiReader_Get = (\<lambda>key obj w. (readIndex (Store w) key obj, w))\<rparr>"

text \<open>A client whose cache-backed read always fails with the given error.\<close>

definition failingReads :: "error \<Rightarrow> World customCtrlClientImpl" where
  "failingReads err = worldClient\<lparr>Client_Get := (\<lambda>key obj w. ((Some err, obj), w))\<rparr>"

text \<open>Objects and worlds of the concrete runs: a role without the ownership label,
  which the store has and the cache has not; a config map whose cached copy is one
  version behind the stored one; and a config map cached at its stored version.\<close>

definition roleB :: Object where
  "roleB = \<lparr>TypeOf = Role, Name = ''b'', Namespace = ''ns'', ResourceVersion = ''5'',
            Labels = [], Spec = ''rules'', Status = []\<rparr>"

definition cmStored :: Object where
  "cmStored = \<lparr>TypeOf = ConfigMap, Name = ''cm'', Namespace = ''ns'', ResourceVersion = ''6'',
               Labels = [(AppManagedByLabelKey, AppManagedByLabelValue)], Spec = ''data-x'',
               Status = []\<rparr>"

definition cmCached :: Object where
  "cmCached = cmStored\<lparr>ResourceVersion := ''5'', Spec := ''data''\<rparr>"

definition cmWanted :: Object where
  "cmWanted = cmStored\<lparr>ResourceVersion := [], Spec := ''data-y''\<rparr>"

definition laggingWorld :: World where
  "laggingWorld =
     \<lparr>Store = [((Role, keyOf roleB), roleB), ((ConfigMap, keyOf cmStored), cmStored)],
      Cache = [((ConfigMap, keyOf cmCached), cmCached)]\<rparr>"

definition syncedWorld :: World where
  "syncedWorld =
     \<lparr>Store = [((Role, keyOf roleB), roleB), ((ConfigMap, keyOf cmStored), cmStored)],
      Cache = [((ConfigMap, keyOf cmStored), cmStored)]\<rparr>"

text \<open>Managers for concrete constructions: one for which every step succeeds, one
  whose informer for a given kind cannot be established.\<close>

definition goodManager :: Manager where
  "goodManager = \<lparr>cache_New = (\<lambda>opts. None), GetInformer = (\<lambda>k. None),
                  mgr_Add = None, client_New = None\<rparr>"

definition forbiddenKind :: "ObjectKind \<Rightarrow> Manager" where
  "forbiddenKind k =
     goodManager\<lparr>GetInformer :=
       (\<lambda>k'. if k' = k then Some (StatusError StatusReasonForbidden 403 ''forbidden'') else None)\<rparr>"


text \<open>An error of the store that is neither "not found", "already exists" nor a
  conflict.\<close>

definition forbidden :: error where
  "forbidden = StatusError StatusReasonForbidden 403 ''forbidden''"

text \<open>The recorded form of the write of a protocol.\<close>

definition writeCall :: "bool \<Rightarrow> Object \<Rightarrow> error option \<Rightarrow> Object \<Rightarrow> Call" where
  "writeCall sub arg err out =
     (if sub then CallClientStatusUpdate arg err out else CallClientUpdate arg err out)"

text \<open>A world whose cache still holds a config map that the store no longer has, and a
  config map that the store does not have yet.\<close>

definition deletedWorld :: World where
  "deletedWorld = \<lparr>Store = [], Cache = [((ConfigMap, keyOf cmStored), cmStored)]\<rparr>"

definition cmNew :: Object where
  "cmNew = cmWanted\<lparr>Name := ''other''\<rparr>"

text \<open>The selector and the cache options that \<^verbatim>\<open>BuildCustomClient\<close> computes before it
  calls \<^verbatim>\<open>cache.New\<close>.\<close>

definition managedSelector :: Selector where
  "managedSelector = [Requirement AppManagedByLabelKey Equals [AppManagedByLabelValue]]"

definition builtCacheOpts :: CacheOptions where
  "builtCacheOpts = \<lparr>ByObjects = customCacheObjects managedSelector,
                      ReaderFailOnMissingInformer = True\<rparr>"

section \<open>Classification, recorded calls and the retry loop\<close>

lemma IsConflict_WrapError: "IsConflict (WrapError p e) = IsConflict e"
  by (simp add: IsConflict_def)

lemma c_Client_Get_calls:
  "c_Client_Get c key obj s = ((err, out), s') \<Longrightarrow> fst s' = fst s @ [CallClientGet key obj err out]"
  by (auto simp: c_Client_Get_def split: prod.splits)

lemma c_Client_Update_calls:
  "c_Client_Update c obj s = ((err, out), s') \<Longrightarrow> fst s' = fst s @ [CallClientUpdate obj err out]"
  by (auto simp: c_Client_Update_def split: prod.splits)

lemma c_Client_Status_Update_calls:
  "c_Client_Status_Update c obj s = ((err, out), s') \<Longrightarrow> fst s' = fst s @ [CallClientStatusUpdate obj err out]"
  by (auto simp: c_Client_Status_Update_def split: prod.splits)

lemma newCalls_append: "fst s' = fst s @ cs \<Longrightarrow> newCalls s s' = cs"
  by (simp add: newCalls_def)

lemma replayAttempts_append:
  "replayAttempts sub key obj xs = Some obj' \<Longrightarrow>
   replayAttempts sub key obj (xs @ ys) = replayAttempts sub key obj' ys"
  by (induction sub key obj xs rule: replayAttempts.induct) (auto split: if_splits)

lemma replayAttempts_no_direct:
  "replayAttempts sub key obj xs = Some obj' \<Longrightarrow> \<not> list_ex isDirectRead xs"
  by (induction sub key obj xs rule: replayAttempts.induct) (auto split: if_splits)

lemma UpdateWithRetry_fn_calls:
  assumes "UpdateWithRetry_fn c key (obj, s) = (r, (obj', s'))"
  shows "\<exists>zs. fst s' = fst s @ zs \<and> replayAttempts False key obj zs = Some obj' \<and>
              length (filter isCacheRead zs) = 1"
  using assms
  by (auto simp: UpdateWithRetry_fn_def Let_def split: prod.splits option.splits
           dest!: c_Client_Get_calls c_Client_Update_calls)

lemma StatusUpdateWithRetry_fn_calls:
  assumes "StatusUpdateWithRetry_fn c key (obj, s) = (r, (obj', s'))"
  shows "\<exists>zs. fst s' = fst s @ zs \<and> replayAttempts True key obj zs = Some obj' \<and>
              length (filter isCacheRead zs) = 1"
  using assms
  by (auto simp: StatusUpdateWithRetry_fn_def Let_def split: prod.splits option.splits
           dest!: c_Client_Get_calls c_Client_Status_Update_calls)

lemma OnError_calls:
  assumes step: "\<And>obj s r obj' s'. fn (obj, s) = (r, (obj', s')) \<Longrightarrow>
            \<exists>zs. fst s' = fst s @ zs \<and> replayAttempts sub key obj zs = Some obj' \<and>
                 length (filter isCacheRead zs) = 1"
  shows "OnError n retriable fn lastErr (obj, s) = (r, (obj', s')) \<Longrightarrow>
         \<exists>zs. fst s' = fst s @ zs \<and> replayAttempts sub key obj zs = Some obj' \<and>
              length (filter isCacheRead zs) \<le> n"
proof (induction n arbitrary: lastErr obj s)
  case 0
  then show ?case by simp
next
  case (Suc n)
  obtain r1 obj1 s1 where f: "fn (obj, s) = (r1, (obj1, s1))"
    by (metis prod.exhaust)
  from step [OF f] obtain zs where zs: "fst s1 = fst s @ zs"
      "replayAttempts sub key obj zs = Some obj1" "length (filter isCacheRead zs) = 1"
    by blast
  show ?case
  proof (cases "\<exists>e. r1 = Some e \<and> retriable e")
    case True
    then obtain e where e: "r1 = Some e" "retriable e" by blast
    with Suc.prems f have "OnError n retriable fn (Some e) (obj1, s1) = (r, (obj', s'))"
      by simp
    from Suc.IH [OF this] obtain ys where ys: "fst s' = fst s1 @ ys"
        "replayAttempts sub key obj1 ys = Some obj'" "length (filter isCacheRead ys) \<le> n"
      by blast
    have "fst s' = fst s @ (zs @ ys)" using zs ys by simp
    moreover have "replayAttempts sub key obj (zs @ ys) = Some obj'"
      using replayAttempts_append [OF zs(2)] ys(2) by simp
    moreover have "length (filter isCacheRead (zs @ ys)) \<le> Suc n"
      using zs(3) ys(3) by simp
    ultimately show ?thesis by blast
  next
    case False
    with Suc.prems f have "obj' = obj1" "s' = s1"
      by (auto split: option.splits if_splits)
    with zs show ?thesis by auto
  qed
qed

lemma OnError_conflict_exhausted:
  assumes step: "\<And>obj s r obj' s'. fn (obj, s) = (r, (obj', s')) \<Longrightarrow>
            \<exists>zs. fst s' = fst s @ zs \<and> replayAttempts sub key obj zs = Some obj' \<and>
                 length (filter isCacheRead zs) = 1"
  shows "OnError n retriable fn lastErr (obj, s) = (Some err, (obj', s')) \<Longrightarrow> retriable err \<Longrightarrow>
         \<exists>zs. fst s' = fst s @ zs \<and> length (filter isCacheRead zs) = n"
proof (induction n arbitrary: lastErr obj s)
  case 0
  then show ?case by simp
next
  case (Suc n)
  obtain r1 obj1 s1 where f: "fn (obj, s) = (r1, (obj1, s1))"
    by (metis prod.exhaust)
  from step [OF f] obtain zs where zs: "fst s1 = fst s @ zs" "length (filter isCacheRead zs) = 1"
    by blast
  from Suc.prems f obtain e where e: "r1 = Some e" "retriable e"
    by (auto split: option.splits if_splits)
  with Suc.prems f have "OnError n retriable fn (Some e) (obj1, s1) = (Some err, (obj', s'))"
    by simp
  from Suc.IH [OF this Suc.prems(2)] obtain ys where ys: "fst s' = fst s1 @ ys"
      "length (filter isCacheRead ys) = n"
    by blast
  have "fst s' = fst s @ (zs @ ys)" using zs ys by simp
  moreover have "length (filter isCacheRead (zs @ ys)) = Suc n"
    using zs(2) ys(2) by simp
  ultimately show ?case by blast
qed


lemma retryClosure_calls:
  assumes "retryClosure sub c key (obj, s) = (r, (obj', s'))"
  shows "\<exists>zs. fst s' = fst s @ zs \<and> replayAttempts sub key obj zs = Some obj' \<and>
              length (filter isCacheRead zs) = 1"
  using assms UpdateWithRetry_fn_calls [of c key obj s r obj' s']
    StatusUpdateWithRetry_fn_calls [of c key obj s r obj' s']
  by (cases sub) (simp_all add: retryClosure_def)

lemma withRetry_OnError:
  "withRetry sub c obj s = OnError 5 IsConflict (retryClosure sub c (keyOf obj)) None (obj, s)"
  by (simp add: withRetry_def retryClosure_def UpdateWithRetry_def StatusUpdateWithRetry_def
        RetryOnConflict_def DefaultRetry_def keyOf_def)

lemma withRetry_calls:
  assumes "withRetry sub c obj s = (r, (obj', s'))"
  shows "\<exists>zs. newCalls s s' = zs \<and> replayAttempts sub (keyOf obj) obj zs = Some obj' \<and>
              length (filter isCacheRead zs) \<le> 5"
proof -
  have "OnError 5 IsConflict (retryClosure sub c (keyOf obj)) None (obj, s) = (r, (obj', s'))"
    using assms by (simp add: withRetry_OnError)
  moreover have "\<And>o1 s1 r1 o2 s2. retryClosure sub c (keyOf obj) (o1, s1) = (r1, (o2, s2)) \<Longrightarrow>
            \<exists>zs. fst s2 = fst s1 @ zs \<and> replayAttempts sub (keyOf obj) o1 zs = Some o2 \<and>
                 length (filter isCacheRead zs) = 1"
    by (rule retryClosure_calls)
  ultimately have "\<exists>zs. fst s' = fst s @ zs \<and> replayAttempts sub (keyOf obj) obj zs = Some obj' \<and>
              length (filter isCacheRead zs) \<le> 5"
    by (rule OnError_calls [rotated])
  then show ?thesis by (auto simp: newCalls_append)
qed


lemma retryClosure_write:
  assumes "c_Client_Get c key (New (TypeOf obj)) s = ((None, cur), s1)"
    and "c_write sub c (obj\<lparr>ResourceVersion := ResourceVersion cur\<rparr>) s1 = ((werr, obj2), s2)"
  shows "retryClosure sub c key (obj, s) =
           (case werr of None \<Rightarrow> None | Some e \<Rightarrow> Some (Errorf_update key e), (obj2, s2))"
  using assms
  by (cases sub; cases werr)
     (simp_all add: retryClosure_def c_write_def UpdateWithRetry_fn_def StatusUpdateWithRetry_fn_def)

lemma sublist_Quote_fetch: "sublist (Quote (String key)) (Error (Errorf_fetch key e))"
proof -
  have "Error (Errorf_fetch key e) =
          ''failed to fetch latest '' @ Quote (String key) @ ('' for update: '' @ Error e)"
    by (simp add: Errorf_fetch_def)
  then show ?thesis by (simp only: sublist_appendI)
qed

lemma sublist_Quote_update: "sublist (Quote (String key)) (Error (Errorf_update key e))"
proof -
  have "Error (Errorf_update key e) =
          ''failed to update '' @ Quote (String key) @ ('' resource: '' @ Error e)"
    by (simp add: Errorf_update_def)
  then show ?thesis by (simp only: sublist_appendI)
qed

lemma retryClosure_error_names_key:
  assumes "retryClosure sub c key os = (Some err, os')"
  shows "sublist (Quote (String key)) (Error err)"
proof -
  have "(\<exists>e. err = Errorf_fetch key e) \<or> (\<exists>e. err = Errorf_update key e)"
    using assms
    by (cases sub)
       (auto simp: retryClosure_def UpdateWithRetry_fn_def StatusUpdateWithRetry_fn_def Let_def
             split: prod.splits option.splits)
  then show ?thesis
    using sublist_Quote_fetch sublist_Quote_update by blast
qed

lemma OnError_error_origin:
  assumes step: "\<And>s e s'. fn s = (Some e, s') \<Longrightarrow> P e"
  shows "OnError n retriable fn lastErr s = (Some err, s') \<Longrightarrow>
         (\<And>e. lastErr = Some e \<Longrightarrow> P e) \<Longrightarrow> P err"
proof (induction n arbitrary: lastErr s)
  case 0
  then show ?case by simp
next
  case (Suc n)
  obtain r1 s1 where f: "fn s = (r1, s1)" by (metis prod.exhaust)
  show ?case
  proof (cases r1)
    case None
    with Suc.prems f show ?thesis by simp
  next
    case (Some e)
    have pe: "P e" using step f Some by blast
    show ?thesis
    proof (cases "retriable e")
      case True
      with Suc.prems f Some have "OnError n retriable fn (Some e) s1 = (Some err, s')" by simp
      from Suc.IH [OF this] pe show ?thesis by simp
    next
      case False
      with Suc.prems f Some pe show ?thesis by simp
    qed
  qed
qed

lemma withRetry_error_names_key:
  assumes "withRetry sub c obj s = (Some err, os')"
  shows "sublist (Quote (String (keyOf obj))) (Error err)"
proof -
  have "OnError 5 IsConflict (retryClosure sub c (keyOf obj)) None (obj, s) = (Some err, os')"
    using assms by (simp add: withRetry_OnError)
  from OnError_error_origin [where fn = "retryClosure sub c (keyOf obj)"
      and P = "\<lambda>e. sublist (Quote (String (keyOf obj))) (Error e)", OF _ this]
  show ?thesis using retryClosure_error_names_key by blast
qed

lemma withRetry_conflict_exhausted:
  assumes "withRetry sub c obj s = (Some err, (obj', s'))" and "IsConflict err"
  shows "length (filter isCacheRead (newCalls s s')) = 5"
proof -
  have eq: "OnError 5 IsConflict (retryClosure sub c (keyOf obj)) None (obj, s) = (Some err, (obj', s'))"
    using assms by (simp add: withRetry_OnError)
  have step: "\<And>o1 s1 r1 o2 s2. retryClosure sub c (keyOf obj) (o1, s1) = (r1, (o2, s2)) \<Longrightarrow>
            \<exists>zs. fst s2 = fst s1 @ zs \<and> replayAttempts sub (keyOf obj) o1 zs = Some o2 \<and>
                 length (filter isCacheRead zs) = 1"
    by (rule retryClosure_calls)
  have "\<exists>zs. fst s' = fst s @ zs \<and> length (filter isCacheRead zs) = 5"
    by (rule OnError_conflict_exhausted [where fn = "retryClosure sub c (keyOf obj)" and sub = sub
          and key = "keyOf obj", OF step eq assms(2)])
  then show ?thesis by (auto simp: newCalls_append)
qed


lemma OnError_first_attempt:
  assumes step: "\<And>obj s r obj' s'. fn (obj, s) = (r, (obj', s')) \<Longrightarrow>
            \<exists>zs. fst s' = fst s @ zs \<and> replayAttempts sub key obj zs = Some obj' \<and>
                 length (filter isCacheRead zs) = 1"
    and run: "OnError (Suc n) retriable fn lastErr (obj, s) = (r, (obj', s'))"
  shows "\<exists>zs. fst s' = fst s @ zs \<and> 1 \<le> length (filter isCacheRead zs)"
proof -
  obtain r1 obj1 s1 where f: "fn (obj, s) = (r1, (obj1, s1))"
    by (metis prod.exhaust)
  from step [OF f] obtain zs where zs: "fst s1 = fst s @ zs" "length (filter isCacheRead zs) = 1"
    by blast
  show ?thesis
  proof (cases "\<exists>e. r1 = Some e \<and> retriable e")
    case True
    then obtain e where e: "r1 = Some e" "retriable e" by blast
    with run f have "OnError n retriable fn (Some e) (obj1, s1) = (r, (obj', s'))"
      by simp
    from this step
    have "\<exists>ys. fst s' = fst s1 @ ys \<and> replayAttempts sub key obj1 ys = Some obj' \<and>
              length (filter isCacheRead ys) \<le> n"
      by (rule OnError_calls [rotated])
    then obtain ys where "fst s' = fst s1 @ ys" by blast
    then have "fst s' = fst s @ (zs @ ys)" using zs by simp
    moreover have "1 \<le> length (filter isCacheRead (zs @ ys))" using zs by simp
    ultimately show ?thesis by blast
  next
    case False
    with run f have "s' = s1" by (auto split: option.splits if_splits)
    with zs show ?thesis by auto
  qed
qed

lemma withRetry_attempts:
  assumes "withRetry sub c obj s = (r, (obj', s'))"
  shows "replayAttempts sub (keyOf obj) obj (newCalls s s') = Some obj' \<and>
         1 \<le> length (filter isCacheRead (newCalls s s')) \<and>
         length (filter isCacheRead (newCalls s s')) \<le> 5"
proof -
  have step: "\<And>o1 s1 r1 o2 s2. retryClosure sub c (keyOf obj) (o1, s1) = (r1, (o2, s2)) \<Longrightarrow>
            \<exists>zs. fst s2 = fst s1 @ zs \<and> replayAttempts sub (keyOf obj) o1 zs = Some o2 \<and>
                 length (filter isCacheRead zs) = 1"
    by (rule retryClosure_calls)
  have "OnError (Suc 4) IsConflict (retryClosure sub c (keyOf obj)) None (obj, s) = (r, (obj', s'))"
    using assms by (simp add: withRetry_OnError)
  from this step have "\<exists>zs. fst s' = fst s @ zs \<and> 1 \<le> length (filter isCacheRead zs)"
    by (rule OnError_first_attempt [rotated])
  then have "1 \<le> length (filter isCacheRead (newCalls s s'))"
    by (auto simp: newCalls_append)
  with withRetry_calls [OF assms] show ?thesis by simp
qed






lemma writesRestamped_writeCall [simp]:
  "writesRestamped obj (writeCall sub arg err out) = sameButVersion obj arg"
  by (simp add: writeCall_def)

lemma readsInto_writeCall [simp]: "readsInto fresh (writeCall sub arg err out)"
  by (simp add: writeCall_def)




lemma getInformers_Inr:
  "getInformers mgr rs started = Inr out \<Longrightarrow>
   out = started @ rs \<and> (\<forall>k\<in>set rs. GetInformer mgr k = None)"
proof (induction rs arbitrary: started)
  case Nil
  then show ?case by simp
next
  case (Cons a rs)
  from Cons.prems have n: "GetInformer mgr a = None"
    and g: "getInformers mgr rs (started @ [a]) = Inr out"
    by (auto split: option.splits)
  from Cons.IH [OF g] n show ?case by simp
qed

lemma getInformers_Inl:
  "\<exists>k\<in>set rs. GetInformer mgr k \<noteq> None \<Longrightarrow> \<exists>err. getInformers mgr rs started = Inl err"
  by (induction rs arbitrary: started) (auto split: option.splits)

lemma NewRequirement_managed:
  "NewRequirement AppManagedByLabelKey Equals [AppManagedByLabelValue] =
     Inr (Requirement AppManagedByLabelKey Equals [AppManagedByLabelValue])"
  by (simp add: NewRequirement_def AppManagedByLabelKey_def)

lemma BuildCustomClient_unfold:
  "BuildCustomClient mgr =
     (case cache_New mgr builtCacheOpts of
        Some err \<Rightarrow> Inl err
      | None \<Rightarrow>
          (case getInformers mgr informerResources [] of
             Inl err \<Rightarrow> Inl err
           | Inr started \<Rightarrow>
               (case mgr_Add mgr of
                  Some err \<Rightarrow> Inl err
                | None \<Rightarrow>
                    (case client_New mgr of
                       Some err \<Rightarrow> Inl err
                     | None \<Rightarrow> Inr \<lparr>Options = builtCacheOpts, Informers = started,
                                     Registered = True\<rparr>))))"
  by (simp add: BuildCustomClient_def NewRequirement_managed Add_def NewSelector_def
        builtCacheOpts_def managedSelector_def Let_def split: option.splits sum.splits)

lemma BuildCustomClient_Inr:
  assumes "BuildCustomClient mgr = Inr cl"
  shows "Options cl = builtCacheOpts \<and> Informers cl = informerResources \<and> Registered cl \<and>
         (\<forall>k\<in>set informerResources. GetInformer mgr k = None) \<and>
         cache_New mgr builtCacheOpts = None \<and> mgr_Add mgr = None \<and> client_New mgr = None"
proof -
  from assms obtain started where
      g: "getInformers mgr informerResources [] = Inr started"
      and c: "cache_New mgr builtCacheOpts = None" "mgr_Add mgr = None" "client_New mgr = None"
      and cl: "cl = \<lparr>Options = builtCacheOpts, Informers = started, Registered = True\<rparr>"
    by (auto simp: BuildCustomClient_unfold split: option.splits sum.splits)
  from getInformers_Inr [OF g] c cl show ?thesis by simp
qed

lemma NewCustomClient_Inr: "NewCustomClient mgr = Inr cl \<longleftrightarrow> BuildCustomClient mgr = Inr cl"
  by (simp add: NewCustomClient_def split: sum.splits)

lemma NewCustomClient_Inl:
  "BuildCustomClient mgr = Inl err \<Longrightarrow>
   NewCustomClient mgr = Inl (WrapError ''failed to build custom client: '' err)"
  by (simp add: NewCustomClient_def)

section \<open>Concrete runs\<close>

lemmas run_defs = c_Client_Get_def c_apiReader_Get_def c_Client_Create_def c_Client_Update_def
  c_Client_Status_Update_def worldClient_def failingReads_def readIndex_def storeCreate_def
  storeUpdate_def storeStatusUpdate_def laggingWorld_def syncedWorld_def roleB_def cmStored_def
  cmCached_def cmWanted_def keyOf_def New_def NewNotFound_def NewConflict_def NewAlreadyExists_def
  nextVersion_def deletedWorld_def cmNew_def Let_def

lemma OnError_5:
  "OnError 5 retriable fn lastErr s = OnError (Suc (Suc (Suc (Suc (Suc 0))))) retriable fn lastErr s"
  by (simp add: numeral_eq_Suc)

lemmas retry_defs = UpdateWithRetry_def StatusUpdateWithRetry_def RetryOnConflict_def
  DefaultRetry_def OnError_5 UpdateWithRetry_fn_def StatusUpdateWithRetry_fn_def IsConflict_def
  Errorf_fetch_def Errorf_update_def newCalls_def

lemma run_Get_cache_roleB:
  "c_Client_Get worldClient (keyOf roleB) (New Role) ([], laggingWorld) =
     ((Some (NewNotFound (keyOf roleB)), New Role),
      ([CallClientGet (keyOf roleB) (New Role) (Some (NewNotFound (keyOf roleB))) (New Role)],
       laggingWorld))"
  by (simp add: run_defs)

lemma run_Get_direct_roleB:
  "c_apiReader_Get worldClient (keyOf roleB) (New Role) (cs, laggingWorld) =
     ((None, roleB), (cs @ [CallAPIReaderGet (keyOf roleB) (New Role) None roleB], laggingWorld))"
  by (simp add: run_defs)

lemma run_UpdateWithRetry_roleB:
  "UpdateWithRetry worldClient roleB ([], laggingWorld) =
     (Some (Errorf_fetch (keyOf roleB) (NewNotFound (keyOf roleB))),
      (roleB, ([CallClientGet (keyOf roleB) (New Role) (Some (NewNotFound (keyOf roleB))) (New Role)],
       laggingWorld)))"
  by (simp add: retry_defs run_defs)

lemma run_UpdateWithRetry_lagging:
  "fst (UpdateWithRetry worldClient cmWanted ([], laggingWorld)) =
     Some (Errorf_update (keyOf cmWanted) (NewConflict (keyOf cmWanted))) \<and>
   length (newCalls ([], laggingWorld) (snd (snd (UpdateWithRetry worldClient cmWanted ([], laggingWorld))))) = 10 \<and>
   fst (snd (UpdateWithRetry worldClient cmWanted ([], laggingWorld))) = cmWanted\<lparr>ResourceVersion := ''5''\<rparr>"
  by (simp add: retry_defs run_defs)



lemma IsAlreadyExists_WrapError: "IsAlreadyExists (WrapError p e) = IsAlreadyExists e"
  by (simp add: IsAlreadyExists_def ReasonForError_def)

lemma c_apiReader_Get_calls:
  "c_apiReader_Get c key obj s = ((err, out), s') \<Longrightarrow> fst s' = fst s @ [CallAPIReaderGet key obj err out]"
  by (auto simp: c_apiReader_Get_def split: prod.splits)

lemma c_Client_Create_calls:
  "c_Client_Create c obj s = ((err, out), s') \<Longrightarrow> fst s' = fst s @ [CallClientCreate obj err out]"
  by (auto simp: c_Client_Create_def split: prod.splits)

lemma IsNotFound_NewNotFound: "IsNotFound (NewNotFound key)"
  by (simp add: IsNotFound_def NewNotFound_def)

lemma not_IsNotFound_forbidden: "\<not> IsNotFound forbidden"
  by (simp add: IsNotFound_def forbidden_def)

lemma run_Get_cache_forbidden:
  "c_Client_Get (failingReads forbidden) (keyOf roleB) (New Role) ([], laggingWorld) =
     ((Some forbidden, New Role),
      ([CallClientGet (keyOf roleB) (New Role) (Some forbidden) (New Role)], laggingWorld))"
  by (simp add: run_defs)

lemma run_Get_cache_cm:
  "c_Client_Get worldClient (keyOf cmStored) (New ConfigMap) ([], syncedWorld) =
     ((None, cmStored),
      ([CallClientGet (keyOf cmStored) (New ConfigMap) None cmStored], syncedWorld))"
  by (simp add: run_defs)

lemma run_Create_cm:
  "c_Client_Create worldClient cmWanted ([], syncedWorld) =
     ((Some (NewAlreadyExists (keyOf cmWanted)), cmWanted),
      ([CallClientCreate cmWanted (Some (NewAlreadyExists (keyOf cmWanted))) cmWanted], syncedWorld))"
  by (simp add: run_defs)

lemma IsAlreadyExists_NewAlreadyExists: "IsAlreadyExists (NewAlreadyExists key)"
  by (simp add: IsAlreadyExists_def ReasonForError_def NewAlreadyExists_def)

lemma run_Create_forbidden:
  "c_Client_Create (worldClient\<lparr>Client_Create := (\<lambda>obj w. ((Some forbidden, obj), w))\<rparr>) cmWanted
     ([], syncedWorld) =
     ((Some forbidden, cmWanted), ([CallClientCreate cmWanted (Some forbidden) cmWanted], syncedWorld))"
  by (simp add: run_defs)

lemma not_IsAlreadyExists_forbidden: "\<not> IsAlreadyExists forbidden"
  by (simp add: IsAlreadyExists_def ReasonForError_def forbidden_def)

lemma run_Create_new:
  "c_Client_Create worldClient cmNew ([], syncedWorld) =
     ((None, cmNew\<lparr>ResourceVersion := ''1''\<rparr>),
      ([CallClientCreate cmNew None (cmNew\<lparr>ResourceVersion := ''1''\<rparr>)],
       syncedWorld\<lparr>Store := ((ConfigMap, keyOf cmNew), cmNew\<lparr>ResourceVersion := ''1''\<rparr>) # Store syncedWorld\<rparr>))"
  by (simp add: run_defs)

lemma run_synced:
  "fst (UpdateWithRetry worldClient cmWanted ([], syncedWorld)) = None \<and>
   fst (snd (UpdateWithRetry worldClient cmWanted ([], syncedWorld))) =
     cmWanted\<lparr>ResourceVersion := ''6+''\<rparr> \<and>
   newCalls ([], syncedWorld) (snd (snd (UpdateWithRetry worldClient cmWanted ([], syncedWorld)))) =
     [CallClientGet (keyOf cmWanted) (New ConfigMap) None cmStored,
      CallClientUpdate (cmWanted\<lparr>ResourceVersion := ''6''\<rparr>) None
        (cmWanted\<lparr>ResourceVersion := ''6+''\<rparr>)]"
  by (simp add: retry_defs run_defs)


lemma run_lagging:
  "fst (UpdateWithRetry worldClient cmWanted ([], laggingWorld)) =
     Some (Errorf_update (keyOf cmWanted) (NewConflict (keyOf cmWanted))) \<and>
   fst (snd (UpdateWithRetry worldClient cmWanted ([], laggingWorld))) =
     cmWanted\<lparr>ResourceVersion := ''5''\<rparr> \<and>
   length (newCalls ([], laggingWorld) (snd (snd (UpdateWithRetry worldClient cmWanted ([], laggingWorld))))) = 10"
  by (simp add: retry_defs run_defs)


lemma run_status_roleB:
  "StatusUpdateWithRetry worldClient roleB ([], laggingWorld) =
     (Some (Errorf_fetch (keyOf roleB) (NewNotFound (keyOf roleB))),
      (roleB, ([CallClientGet (keyOf roleB) (New Role) (Some (NewNotFound (keyOf roleB))) (New Role)],
       laggingWorld)))"
  by (simp add: retry_defs run_defs)

lemma run_Get_cache_lagging:
  "c_Client_Get worldClient (keyOf cmWanted) (New (TypeOf cmWanted)) ([], laggingWorld) =
     ((None, cmCached),
      ([CallClientGet (keyOf cmWanted) (New ConfigMap) None cmCached], laggingWorld))"
  by (simp add: run_defs)

lemma run_write_lagging:
  "c_write False worldClient (cmWanted\<lparr>ResourceVersion := ResourceVersion cmCached\<rparr>)
     ([CallClientGet (keyOf cmWanted) (New ConfigMap) None cmCached], laggingWorld) =
     ((Some (NewConflict (keyOf cmWanted)), cmWanted\<lparr>ResourceVersion := ''5''\<rparr>),
      ([CallClientGet (keyOf cmWanted) (New ConfigMap) None cmCached,
        CallClientUpdate (cmWanted\<lparr>ResourceVersion := ''5''\<rparr>)
          (Some (NewConflict (keyOf cmWanted))) (cmWanted\<lparr>ResourceVersion := ''5''\<rparr>)],
       laggingWorld))"
  by (simp add: c_write_def run_defs)

lemma run_Get_cache_deleted:
  "c_Client_Get worldClient (keyOf cmWanted) (New (TypeOf cmWanted)) ([], deletedWorld) =
     ((None, cmStored),
      ([CallClientGet (keyOf cmWanted) (New ConfigMap) None cmStored], deletedWorld))"
  by (simp add: run_defs)

lemma run_write_deleted:
  "c_write False worldClient (cmWanted\<lparr>ResourceVersion := ResourceVersion cmStored\<rparr>)
     ([CallClientGet (keyOf cmWanted) (New ConfigMap) None cmStored], deletedWorld) =
     ((Some (NewNotFound (keyOf cmWanted)), cmWanted\<lparr>ResourceVersion := ''6''\<rparr>),
      ([CallClientGet (keyOf cmWanted) (New ConfigMap) None cmStored,
        CallClientUpdate (cmWanted\<lparr>ResourceVersion := ''6''\<rparr>)
          (Some (NewNotFound (keyOf cmWanted))) (cmWanted\<lparr>ResourceVersion := ''6''\<rparr>)],
       deletedWorld))"
  by (simp add: c_write_def run_defs)

lemma run_Get_cache_synced:
  "c_Client_Get worldClient (keyOf cmWanted) (New (TypeOf cmWanted)) ([], syncedWorld) =
     ((None, cmStored),
      ([CallClientGet (keyOf cmWanted) (New ConfigMap) None cmStored], syncedWorld))"
  by (simp add: run_defs)

lemma run_write_synced:
  "fst (c_write False worldClient (cmWanted\<lparr>ResourceVersion := ResourceVersion cmStored\<rparr>)
     ([CallClientGet (keyOf cmWanted) (New ConfigMap) None cmStored], syncedWorld)) =
     (None, cmWanted\<lparr>ResourceVersion := ''6+''\<rparr>)"
  by (simp add: c_write_def run_defs)

lemma IsConflict_NewConflict: "IsConflict (NewConflict key)"
  by (simp add: IsConflict_def NewConflict_def)

lemma not_IsConflict_NewNotFound: "\<not> IsConflict (NewNotFound key)"
  by (simp add: IsConflict_def NewNotFound_def)





lemma forbiddenKind_Deployment:
  "Deployment \<in> set informerResources \<and> GetInformer (forbiddenKind Deployment) Deployment \<noteq> None"
  by (simp add: informerResources_def forbiddenKind_def goodManager_def)

lemma run_goodManager:
  "NewCustomClient goodManager =
     Inr \<lparr>Options = builtCacheOpts, Informers = informerResources, Registered = True\<rparr>"
  by (simp add: NewCustomClient_def BuildCustomClient_unfold goodManager_def informerResources_def)

section \<open>Get: the fallback to the direct reader\<close>

text \<open>
  Claim C1. When the cache-backed read of \<^verbatim>\<open>Get\<close> fails with an error classified as
  "not found", \<^verbatim>\<open>Get\<close> makes one more read through the direct reader, on the object as
  the first read left it, and returns the result of that read (so it returns the object
  whenever the direct reader finds it). When the cache-backed read fails with any other
  error, \<^verbatim>\<open>Get\<close> returns that error and no read through the direct reader is made.
\<close>

theorem Get_fallback:
  assumes "c_Client_Get c key obj s = ((Some err, obj1), s1)"
  shows "(IsNotFound err \<longrightarrow>
            Get c key obj s = c_apiReader_Get c key obj1 s1 \<and>
            (\<exists>err2 obj2. fst (Get c key obj s) = (err2, obj2) \<and>
               newCalls s (snd (Get c key obj s)) =
                 [CallClientGet key obj (Some err) obj1, CallAPIReaderGet key obj1 err2 obj2])) \<and>
         (\<not> IsNotFound err \<longrightarrow>
            Get c key obj s = ((Some err, obj1), s1) \<and>
            newCalls s (snd (Get c key obj s)) = [CallClientGet key obj (Some err) obj1])"
proof (intro conjI impI)
  assume nf: "IsNotFound err"
  show g: "Get c key obj s = c_apiReader_Get c key obj1 s1"
    using assms nf by (simp add: Get_def)
  obtain err2 obj2 s2 where r: "c_apiReader_Get c key obj1 s1 = ((err2, obj2), s2)"
    by (metis prod.exhaust)
  have "fst s2 = fst s @ [CallClientGet key obj (Some err) obj1, CallAPIReaderGet key obj1 err2 obj2]"
    using c_Client_Get_calls [OF assms] c_apiReader_Get_calls [OF r] by simp
  then show "\<exists>err2 obj2. fst (Get c key obj s) = (err2, obj2) \<and>
               newCalls s (snd (Get c key obj s)) =
                 [CallClientGet key obj (Some err) obj1, CallAPIReaderGet key obj1 err2 obj2]"
    using g r by (simp add: newCalls_append)
next
  assume nf: "\<not> IsNotFound err"
  show g: "Get c key obj s = ((Some err, obj1), s1)"
    using assms nf by (simp add: Get_def)
  show "newCalls s (snd (Get c key obj s)) = [CallClientGet key obj (Some err) obj1]"
    using g c_Client_Get_calls [OF assms] by (simp add: newCalls_append)
qed

theorem Get_fallback_witness:
  "fst (Get worldClient (keyOf roleB) (New Role) ([], laggingWorld)) = (None, roleB) \<and>
   Get (failingReads forbidden) (keyOf roleB) (New Role) ([], laggingWorld) =
     ((Some forbidden, New Role),
      ([CallClientGet (keyOf roleB) (New Role) (Some forbidden) (New Role)], laggingWorld))"
proof -
  have "Get worldClient (keyOf roleB) (New Role) ([], laggingWorld) =
          c_apiReader_Get worldClient (keyOf roleB) (New Role)
            ([CallClientGet (keyOf roleB) (New Role) (Some (NewNotFound (keyOf roleB))) (New Role)],
             laggingWorld)"
    using Get_fallback [OF run_Get_cache_roleB] IsNotFound_NewNotFound by blast
  then have "fst (Get worldClient (keyOf roleB) (New Role) ([], laggingWorld)) = (None, roleB)"
    by (simp add: run_Get_direct_roleB)
  moreover have "Get (failingReads forbidden) (keyOf roleB) (New Role) ([], laggingWorld) =
     ((Some forbidden, New Role),
      ([CallClientGet (keyOf roleB) (New Role) (Some forbidden) (New Role)], laggingWorld))"
    using Get_fallback [OF run_Get_cache_forbidden] not_IsNotFound_forbidden by blast
  ultimately show ?thesis by simp
qed

section \<open>The read of the retry protocols\<close>

text \<open>
  Claim C2 says that each attempt of \<^verbatim>\<open>UpdateWithRetry\<close> and \<^verbatim>\<open>StatusUpdateWithRetry\<close>
  reads the stored copy through a direct, non-cached read. In \<open>laggingWorld\<close> the store
  has the role \<open>roleB\<close> and the cache has not: the direct reader finds it, yet both
  protocols fail with the wrapped "not found" of the cache-backed read, and that read is
  the only call they make.
\<close>

theorem UpdateWithRetry_reads_cache_not_store:
  "fst (c_apiReader_Get worldClient (keyOf roleB) (New Role) ([], laggingWorld)) = (None, roleB) \<and>
   fst (UpdateWithRetry worldClient roleB ([], laggingWorld)) =
     Some (Errorf_fetch (keyOf roleB) (NewNotFound (keyOf roleB))) \<and>
   newCalls ([], laggingWorld) (snd (snd (UpdateWithRetry worldClient roleB ([], laggingWorld)))) =
     [CallClientGet (keyOf roleB) (New Role) (Some (NewNotFound (keyOf roleB))) (New Role)] \<and>
   fst (StatusUpdateWithRetry worldClient roleB ([], laggingWorld)) =
     Some (Errorf_fetch (keyOf roleB) (NewNotFound (keyOf roleB))) \<and>
   newCalls ([], laggingWorld) (snd (snd (StatusUpdateWithRetry worldClient roleB ([], laggingWorld)))) =
     [CallClientGet (keyOf roleB) (New Role) (Some (NewNotFound (keyOf roleB))) (New Role)]"
  by (simp add: run_UpdateWithRetry_roleB run_status_roleB run_Get_direct_roleB newCalls_def)

text \<open>
  Claim C2, as the code has it. \<^verbatim>\<open>UpdateWithRetry\<close> and \<^verbatim>\<open>StatusUpdateWithRetry\<close> never
  call the direct reader. The calls they make are a sequence of attempts, each of which
  starts with a read of the key through the embedded client (\<^verbatim>\<open>c.Client.Get\<close>, served
  by the watch-backed cache) into a fresh object; there is at least one such read and
  at most as many as the default backoff has steps.
\<close>

theorem withRetry_reads_cache_only:
  "\<not> list_ex isDirectRead (newCalls s (snd (snd (withRetry sub c obj s)))) \<and>
   replayAttempts sub (keyOf obj) obj (newCalls s (snd (snd (withRetry sub c obj s)))) =
     Some (fst (snd (withRetry sub c obj s))) \<and>
   1 \<le> length (filter isCacheRead (newCalls s (snd (snd (withRetry sub c obj s))))) \<and>
   length (filter isCacheRead (newCalls s (snd (snd (withRetry sub c obj s))))) \<le> Steps DefaultRetry"
proof -
  obtain r obj' s' where w: "withRetry sub c obj s = (r, (obj', s'))"
    by (metis prod.exhaust)
  from withRetry_attempts [OF w] replayAttempts_no_direct [of sub "keyOf obj" obj "newCalls s s'" obj']
  show ?thesis using w by (simp add: DefaultRetry_def)
qed

theorem withRetry_reads_cache_only_witness:
  "\<not> list_ex isDirectRead
       [CallClientGet (keyOf cmWanted) (New ConfigMap) None cmStored,
        CallClientUpdate (cmWanted\<lparr>ResourceVersion := ''6''\<rparr>) None
          (cmWanted\<lparr>ResourceVersion := ''6+''\<rparr>)] \<and>
   length (filter isCacheRead
     (newCalls ([], laggingWorld) (snd (snd (StatusUpdateWithRetry worldClient cmWanted ([], laggingWorld))))))
     \<le> 5"
  using withRetry_reads_cache_only [of "([], syncedWorld)" False worldClient cmWanted]
    withRetry_reads_cache_only [of "([], laggingWorld)" True worldClient cmWanted]
    run_synced
  by (simp add: withRetry_def DefaultRetry_def)

section \<open>Exists\<close>

text \<open>
  Claim C3 says that \<^verbatim>\<open>Exists\<close> performs a \<^verbatim>\<open>Get\<close> and answers \<open>(true, nil)\<close> when it
  succeeds. In \<open>laggingWorld\<close> the store has \<open>roleB\<close>, \<^verbatim>\<open>Get\<close> of the client returns it
  (through the direct reader), and \<^verbatim>\<open>Exists\<close> answers \<open>(false, nil)\<close>.
\<close>

theorem Exists_misses_stored_object:
  "map_of (Store laggingWorld) (Role, keyOf roleB) = Some roleB \<and>
   fst (Get worldClient (keyOf roleB) (New Role) ([], laggingWorld)) = (None, roleB) \<and>
   fst (Exists worldClient (keyOf roleB) (New Role) ([], laggingWorld)) = (False, None, New Role)"
  by (simp add: Get_def Exists_def IsNotFound_def run_defs)

text \<open>
  Claim C3, as the code has it. \<^verbatim>\<open>Exists\<close> makes one read through the embedded client
  (\<^verbatim>\<open>c.Client.Get\<close>, the cache-backed read, with no fallback to the direct reader) and
  classifies the outcome of that read: \<open>(true, nil)\<close> when it succeeds, \<open>(false, nil)\<close>
  when its error is classified as "not found", \<open>(false, err)\<close> for any other error. An
  error that \<^verbatim>\<open>Exists\<close> returns is never classified as "not found".
\<close>

theorem Exists_classifies_cache_read:
  assumes "c_Client_Get c key obj s = ((r, obj1), s1)"
  shows "(r = None \<longrightarrow> Exists c key obj s = ((True, None, obj1), s1)) \<and>
         (\<forall>err. r = Some err \<and> IsNotFound err \<longrightarrow> Exists c key obj s = ((False, None, obj1), s1)) \<and>
         (\<forall>err. r = Some err \<and> \<not> IsNotFound err \<longrightarrow>
            Exists c key obj s = ((False, Some err, obj1), s1)) \<and>
         (\<forall>err. fst (snd (fst (Exists c key obj s))) = Some err \<longrightarrow> \<not> IsNotFound err) \<and>
         newCalls s (snd (Exists c key obj s)) = [CallClientGet key obj r obj1]"
proof -
  have calls: "newCalls s s1 = [CallClientGet key obj r obj1]"
    using c_Client_Get_calls [OF assms] by (simp add: newCalls_append)
  show ?thesis
  proof (cases r)
    case None
    with assms calls show ?thesis by (simp add: Exists_def)
  next
    case (Some e)
    with assms calls show ?thesis by (cases "IsNotFound e") (simp_all add: Exists_def)
  qed
qed

theorem Exists_classifies_cache_read_witness:
  "Exists worldClient (keyOf cmStored) (New ConfigMap) ([], syncedWorld) =
     ((True, None, cmStored),
      ([CallClientGet (keyOf cmStored) (New ConfigMap) None cmStored], syncedWorld)) \<and>
   Exists worldClient (keyOf roleB) (New Role) ([], laggingWorld) =
     ((False, None, New Role),
      ([CallClientGet (keyOf roleB) (New Role) (Some (NewNotFound (keyOf roleB))) (New Role)],
       laggingWorld)) \<and>
   Exists (failingReads forbidden) (keyOf roleB) (New Role) ([], laggingWorld) =
     ((False, Some forbidden, New Role),
      ([CallClientGet (keyOf roleB) (New Role) (Some forbidden) (New Role)], laggingWorld))"
  using Exists_classifies_cache_read [OF run_Get_cache_cm]
    Exists_classifies_cache_read [OF run_Get_cache_roleB]
    Exists_classifies_cache_read [OF run_Get_cache_forbidden]
    IsNotFound_NewNotFound not_IsNotFound_forbidden
  by blast

section \<open>The retry loop\<close>

text \<open>
  Claim C4. In an attempt of \<^verbatim>\<open>UpdateWithRetry\<close> or \<^verbatim>\<open>StatusUpdateWithRetry\<close> whose read
  succeeded, with \<open>Suc n\<close> steps of the backoff left: when the write succeeds the call
  returns \<^verbatim>\<open>nil\<close>; when the write is rejected with an error that is no conflict the call
  returns that error, wrapped, at once; when the write is rejected with a conflict the
  wrapped error is still classified as a conflict and the loop goes on with \<open>n\<close> steps
  left, and with no step left (\<open>n = 0\<close>) the call returns the wrapped conflict, whose
  text holds the quoted key. Both protocols run the loop with the steps of
  \<^verbatim>\<open>retry.DefaultRetry\<close>; every error they return holds the quoted key in its text, and
  an error classified as a conflict is returned only after all the steps were used.
\<close>

theorem retry_on_conflict:
  "(\<forall>cur s1 werr obj2 s2.
      c_Client_Get c key (New (TypeOf obj)) s = ((None, cur), s1) \<and>
      c_write sub c (obj\<lparr>ResourceVersion := ResourceVersion cur\<rparr>) s1 = ((werr, obj2), s2) \<longrightarrow>
      (werr = None \<longrightarrow>
         OnError (Suc n) IsConflict (retryClosure sub c key) lastErr (obj, s) = (None, (obj2, s2))) \<and>
      (\<forall>e. werr = Some e \<and> \<not> IsConflict e \<longrightarrow>
         OnError (Suc n) IsConflict (retryClosure sub c key) lastErr (obj, s) =
           (Some (Errorf_update key e), (obj2, s2)) \<and>
         \<not> IsConflict (Errorf_update key e)) \<and>
      (\<forall>e. werr = Some e \<and> IsConflict e \<longrightarrow>
         IsConflict (Errorf_update key e) \<and>
         OnError (Suc n) IsConflict (retryClosure sub c key) lastErr (obj, s) =
           OnError n IsConflict (retryClosure sub c key) (Some (Errorf_update key e)) (obj2, s2) \<and>
         OnError (Suc 0) IsConflict (retryClosure sub c key) lastErr (obj, s) =
           (Some (Errorf_update key e), (obj2, s2)) \<and>
         sublist (Quote (String key)) (Error (Errorf_update key e)))) \<and>
   withRetry sub c obj s =
     OnError (Steps DefaultRetry) IsConflict (retryClosure sub c (keyOf obj)) None (obj, s) \<and>
   (\<forall>err. fst (withRetry sub c obj s) = Some err \<longrightarrow>
      sublist (Quote (String (keyOf obj))) (Error err) \<and>
      (IsConflict err \<longrightarrow>
         length (filter isCacheRead (newCalls s (snd (snd (withRetry sub c obj s))))) =
           Steps DefaultRetry))"
proof (intro conjI allI impI)
  fix cur s1 werr obj2 s2
  assume a: "c_Client_Get c key (New (TypeOf obj)) s = ((None, cur), s1) \<and>
      c_write sub c (obj\<lparr>ResourceVersion := ResourceVersion cur\<rparr>) s1 = ((werr, obj2), s2)"
  then have cl: "retryClosure sub c key (obj, s) =
           (case werr of None \<Rightarrow> None | Some e \<Rightarrow> Some (Errorf_update key e), (obj2, s2))"
    using retryClosure_write by blast
  {
    assume "werr = None"
    with cl show "OnError (Suc n) IsConflict (retryClosure sub c key) lastErr (obj, s) = (None, (obj2, s2))"
      by simp
  }
  {
    fix e assume e: "werr = Some e \<and> \<not> IsConflict e"
    then have nc: "\<not> IsConflict (Errorf_update key e)"
      by (simp add: Errorf_update_def IsConflict_WrapError)
    with cl e show "OnError (Suc n) IsConflict (retryClosure sub c key) lastErr (obj, s) =
           (Some (Errorf_update key e), (obj2, s2))"
      by simp
    from nc show "\<not> IsConflict (Errorf_update key e)" .
  }
  {
    fix e assume e: "werr = Some e \<and> IsConflict e"
    then show ic: "IsConflict (Errorf_update key e)"
      by (simp add: Errorf_update_def IsConflict_WrapError)
    with cl e show "OnError (Suc n) IsConflict (retryClosure sub c key) lastErr (obj, s) =
           OnError n IsConflict (retryClosure sub c key) (Some (Errorf_update key e)) (obj2, s2)"
      by simp
    from ic cl e show "OnError (Suc 0) IsConflict (retryClosure sub c key) lastErr (obj, s) =
           (Some (Errorf_update key e), (obj2, s2))"
      by simp
    show "sublist (Quote (String key)) (Error (Errorf_update key e))"
      by (rule sublist_Quote_update)
  }
next
  show "withRetry sub c obj s =
     OnError (Steps DefaultRetry) IsConflict (retryClosure sub c (keyOf obj)) None (obj, s)"
    by (simp add: withRetry_OnError DefaultRetry_def)
next
  fix err assume e: "fst (withRetry sub c obj s) = Some err"
  then obtain obj' s' where w: "withRetry sub c obj s = (Some err, (obj', s'))"
    by (metis prod.collapse)
  show "sublist (Quote (String (keyOf obj))) (Error err)"
    by (rule withRetry_error_names_key [OF w])
  assume "IsConflict err"
  from withRetry_conflict_exhausted [OF w this]
  show "length (filter isCacheRead (newCalls s (snd (snd (withRetry sub c obj s))))) =
           Steps DefaultRetry"
    using w by (simp add: DefaultRetry_def)
qed

theorem retry_on_conflict_witness:
  "OnError (Suc 0) IsConflict (retryClosure False worldClient (keyOf cmWanted)) None
     (cmWanted, ([], laggingWorld)) =
     (Some (Errorf_update (keyOf cmWanted) (NewConflict (keyOf cmWanted))),
      (cmWanted\<lparr>ResourceVersion := ''5''\<rparr>,
       ([CallClientGet (keyOf cmWanted) (New ConfigMap) None cmCached,
         CallClientUpdate (cmWanted\<lparr>ResourceVersion := ''5''\<rparr>)
           (Some (NewConflict (keyOf cmWanted))) (cmWanted\<lparr>ResourceVersion := ''5''\<rparr>)],
        laggingWorld))) \<and>
   fst (OnError (Suc 4) IsConflict (retryClosure False worldClient (keyOf cmWanted)) None
     (cmWanted, ([], deletedWorld))) =
     Some (Errorf_update (keyOf cmWanted) (NewNotFound (keyOf cmWanted))) \<and>
   fst (OnError (Suc 4) IsConflict (retryClosure False worldClient (keyOf cmWanted)) None
     (cmWanted, ([], syncedWorld))) = None \<and>
   sublist (Quote (String (keyOf cmWanted)))
     (Error (Errorf_update (keyOf cmWanted) (NewConflict (keyOf cmWanted)))) \<and>
   length (filter isCacheRead
     (newCalls ([], laggingWorld) (snd (snd (UpdateWithRetry worldClient cmWanted ([], laggingWorld)))))) = 5"
proof -
  let ?k = "keyOf cmWanted"
  have a: "OnError (Suc 0) IsConflict (retryClosure False worldClient ?k) None
     (cmWanted, ([], laggingWorld)) =
     (Some (Errorf_update ?k (NewConflict ?k)),
      (cmWanted\<lparr>ResourceVersion := ''5''\<rparr>,
       ([CallClientGet ?k (New ConfigMap) None cmCached,
         CallClientUpdate (cmWanted\<lparr>ResourceVersion := ''5''\<rparr>)
           (Some (NewConflict ?k)) (cmWanted\<lparr>ResourceVersion := ''5''\<rparr>)],
        laggingWorld)))"
    using retry_on_conflict [of worldClient ?k cmWanted "([], laggingWorld)" False 0 None]
      run_Get_cache_lagging run_write_lagging IsConflict_NewConflict
    by blast
  have b: "OnError (Suc 4) IsConflict (retryClosure False worldClient ?k) None
     (cmWanted, ([], deletedWorld)) =
     (Some (Errorf_update ?k (NewNotFound ?k)),
      (cmWanted\<lparr>ResourceVersion := ''6''\<rparr>,
       ([CallClientGet ?k (New ConfigMap) None cmStored,
         CallClientUpdate (cmWanted\<lparr>ResourceVersion := ''6''\<rparr>)
           (Some (NewNotFound ?k)) (cmWanted\<lparr>ResourceVersion := ''6''\<rparr>)],
        deletedWorld)))"
    using retry_on_conflict [of worldClient ?k cmWanted "([], deletedWorld)" False 4 None]
      run_Get_cache_deleted run_write_deleted not_IsConflict_NewNotFound
    by blast
  obtain s2 where w: "c_write False worldClient (cmWanted\<lparr>ResourceVersion := ResourceVersion cmStored\<rparr>)
     ([CallClientGet ?k (New ConfigMap) None cmStored], syncedWorld) =
     ((None, cmWanted\<lparr>ResourceVersion := ''6+''\<rparr>), s2)"
    using run_write_synced by (metis prod.collapse)
  have c: "OnError (Suc 4) IsConflict (retryClosure False worldClient ?k) None
     (cmWanted, ([], syncedWorld)) = (None, (cmWanted\<lparr>ResourceVersion := ''6+''\<rparr>, s2))"
    using retry_on_conflict [of worldClient ?k cmWanted "([], syncedWorld)" False 4 None]
      run_Get_cache_synced w
    by blast
  have d: "sublist (Quote (String ?k)) (Error (Errorf_update ?k (NewConflict ?k))) \<and>
    length (filter isCacheRead
     (newCalls ([], laggingWorld) (snd (snd (withRetry False worldClient cmWanted ([], laggingWorld)))))) =
      Steps DefaultRetry"
  proof -
    note g = retry_on_conflict [of worldClient ?k cmWanted "([], laggingWorld)" False 0 None,
        THEN conjunct2, THEN conjunct2]
    have e: "fst (withRetry False worldClient cmWanted ([], laggingWorld)) =
        Some (Errorf_update ?k (NewConflict ?k))"
      using run_lagging by (simp add: withRetry_def)
    have ic: "IsConflict (Errorf_update ?k (NewConflict ?k))"
      by (simp add: Errorf_update_def IsConflict_WrapError IsConflict_NewConflict)
    from g e ic show ?thesis by blast
  qed
  from a b c d show ?thesis by (simp add: withRetry_def DefaultRetry_def)
qed

section \<open>A failed read in the retry loop\<close>




section \<open>The version stamp of the submitted write\<close>



section \<open>CreateOrUpdateObject\<close>

text \<open>
  Claim C7. \<^verbatim>\<open>CreateOrUpdateObject\<close> calls \<^verbatim>\<open>Create\<close> once. When that fails with an error
  classified as "already exists" it calls \<^verbatim>\<open>Update\<close> once, on the object as \<^verbatim>\<open>Create\<close>
  left it and with no read in between, and returns the result of that call. When
  \<^verbatim>\<open>Create\<close> succeeds or fails with any other error, that outcome is returned and the
  \<^verbatim>\<open>Create\<close> is the only call.
\<close>

theorem CreateOrUpdateObject_one_Create:
  assumes "c_Client_Create c obj s = ((r, obj1), s1)"
  shows "(\<forall>err. r = Some err \<and> IsAlreadyExists err \<longrightarrow>
            CreateOrUpdateObject c obj s = c_Client_Update c obj1 s1 \<and>
            (\<exists>r2 obj2. fst (CreateOrUpdateObject c obj s) = (r2, obj2) \<and>
               newCalls s (snd (CreateOrUpdateObject c obj s)) =
                 [CallClientCreate obj r obj1, CallClientUpdate obj1 r2 obj2])) \<and>
         (\<forall>err. r = Some err \<and> \<not> IsAlreadyExists err \<longrightarrow>
            CreateOrUpdateObject c obj s = ((Some err, obj1), s1) \<and>
            newCalls s (snd (CreateOrUpdateObject c obj s)) = [CallClientCreate obj r obj1]) \<and>
         (r = None \<longrightarrow>
            CreateOrUpdateObject c obj s = ((None, obj1), s1) \<and>
            newCalls s (snd (CreateOrUpdateObject c obj s)) = [CallClientCreate obj r obj1])"
proof -
  have calls: "fst s1 = fst s @ [CallClientCreate obj r obj1]"
    by (rule c_Client_Create_calls [OF assms])
  show ?thesis
  proof (cases r)
    case None
    with assms calls show ?thesis
      by (simp add: CreateOrUpdateObject_def Create_def newCalls_append)
  next
    case (Some e)
    show ?thesis
    proof (cases "IsAlreadyExists e")
      case False
      with Some assms calls show ?thesis
        by (simp add: CreateOrUpdateObject_def Create_def newCalls_append)
    next
      case True
      have g: "CreateOrUpdateObject c obj s = c_Client_Update c obj1 s1"
        using assms Some True by (simp add: CreateOrUpdateObject_def Create_def Update_def)
      obtain r2 obj2 s2 where u: "c_Client_Update c obj1 s1 = ((r2, obj2), s2)"
        by (metis prod.exhaust)
      have "fst s2 = fst s @ [CallClientCreate obj r obj1, CallClientUpdate obj1 r2 obj2]"
        using calls c_Client_Update_calls [OF u] by simp
      then have "newCalls s s2 = [CallClientCreate obj r obj1, CallClientUpdate obj1 r2 obj2]"
        by (rule newCalls_append)
      with g u Some True show ?thesis by simp
    qed
  qed
qed

theorem CreateOrUpdateObject_one_Create_witness:
  "CreateOrUpdateObject worldClient cmWanted ([], syncedWorld) =
     c_Client_Update worldClient cmWanted
       ([CallClientCreate cmWanted (Some (NewAlreadyExists (keyOf cmWanted))) cmWanted], syncedWorld) \<and>
   CreateOrUpdateObject (worldClient\<lparr>Client_Create := (\<lambda>obj w. ((Some forbidden, obj), w))\<rparr>)
       cmWanted ([], syncedWorld) =
     ((Some forbidden, cmWanted), ([CallClientCreate cmWanted (Some forbidden) cmWanted], syncedWorld)) \<and>
   fst (CreateOrUpdateObject worldClient cmNew ([], syncedWorld)) =
     (None, cmNew\<lparr>ResourceVersion := ''1''\<rparr>)"
  using CreateOrUpdateObject_one_Create [OF run_Create_cm]
    CreateOrUpdateObject_one_Create [OF run_Create_forbidden]
    CreateOrUpdateObject_one_Create [OF run_Create_new]
    IsAlreadyExists_NewAlreadyExists not_IsAlreadyExists_forbidden
  by simp

section \<open>Construction\<close>

text \<open>
  Claim C8. When the informer of some kind of \<^verbatim>\<open>informerResources\<close> cannot be
  established, \<^verbatim>\<open>NewCustomClient\<close> returns an error (wrapped in "failed to build custom
  client") and no client. A client is returned only when the informer of every kind of
  the list was established.
\<close>

theorem NewCustomClient_needs_every_informer:
  "((\<exists>k\<in>set informerResources. GetInformer mgr k \<noteq> None) \<longrightarrow>
      (\<exists>err. NewCustomClient mgr = Inl (WrapError ''failed to build custom client: '' err))) \<and>
   (\<forall>cl. NewCustomClient mgr = Inr cl \<longrightarrow>
      Informers cl = informerResources \<and>
      (\<forall>k\<in>set informerResources. GetInformer mgr k = None))"
proof (intro conjI impI allI)
  assume "\<exists>k\<in>set informerResources. GetInformer mgr k \<noteq> None"
  from getInformers_Inl [OF this] obtain e where "getInformers mgr informerResources [] = Inl e"
    by blast
  then have "\<exists>err. BuildCustomClient mgr = Inl err"
    by (simp add: BuildCustomClient_unfold split: option.splits)
  then show "\<exists>err. NewCustomClient mgr = Inl (WrapError ''failed to build custom client: '' err)"
    using NewCustomClient_Inl by blast
next
  fix cl assume "NewCustomClient mgr = Inr cl"
  then have b: "BuildCustomClient mgr = Inr cl" by (simp add: NewCustomClient_Inr)
  from BuildCustomClient_Inr [OF b]
  show "Informers cl = informerResources" "\<forall>k\<in>set informerResources. GetInformer mgr k = None"
    by simp_all
qed

theorem NewCustomClient_needs_every_informer_witness:
  "(\<exists>err. NewCustomClient (forbiddenKind Deployment) =
           Inl (WrapError ''failed to build custom client: '' err)) \<and>
   Informers \<lparr>Options = builtCacheOpts, Informers = informerResources, Registered = True\<rparr> =
     informerResources \<and>
   GetInformer goodManager StatefulSet = None"
proof -
  have "\<exists>err. NewCustomClient (forbiddenKind Deployment) =
           Inl (WrapError ''failed to build custom client: '' err)"
    using NewCustomClient_needs_every_informer [of "forbiddenKind Deployment"]
      forbiddenKind_Deployment by blast
  moreover have "StatefulSet \<in> set informerResources" by (simp add: informerResources_def)
  ultimately show ?thesis
    using NewCustomClient_needs_every_informer [of goodManager] run_goodManager by simp
qed



section \<open>What the retry protocols change of the caller's object\<close>



end
